theory Spec2Isabelle
  imports Main
begin

section \<open>Shared rules (utils.js, RULES)\<close>

text \<open>
  \<^verbatim>\<open>RULES = { classPrefix: "dh", dataBindClass: "data-bind-item",
            get eventClass() { return `${this.classPrefix}-event`; },
            get eventActiveClass() { return `${this.eventClass}-active`; } }\<close>
\<close>

definition classPrefix :: string where
  "classPrefix = ''dh''"

definition dataBindClass :: string where
  "dataBindClass = ''data-bind-item''"

definition eventClass :: string where
  "eventClass = classPrefix @ ''-event''"


section \<open>Class-name builder (utils.js, makeClassName and makeSelectorClassName)\<close>

text \<open>
  A token is a string or a nullish value (\<open>None\<close> stands for \<^verbatim>\<open>null\<close> and
  \<^verbatim>\<open>undefined\<close> inside an array). An argument is left out (the default \<^verbatim>\<open>[]\<close>
  applies), a single token, or an array of tokens.
\<close>

type_synonym token = "string option"

datatype tokens = Absent | Single token | Many "token list"

text \<open>\<^verbatim>\<open>Array.isArray(x) ? x : [x]\<close>, after the default parameter value.\<close>

fun toArray :: "tokens \<Rightarrow> token list" where
  "toArray Absent = []"
| "toArray (Single t) = [t]"
| "toArray (Many ts) = ts"

text \<open>\<^verbatim>\<open>Boolean(t)\<close> on a token: the empty string and the nullish values are falsy.\<close>

fun truthy_token :: "token \<Rightarrow> bool" where
  "truthy_token None = False"
| "truthy_token (Some s) = (s \<noteq> [])"

text \<open>\<^verbatim>\<open>arr.filter(Boolean)\<close>: the strings that remain.\<close>

fun filterBoolean :: "token list \<Rightarrow> string list" where
  "filterBoolean [] = []"
| "filterBoolean (None # ts) = filterBoolean ts"
| "filterBoolean (Some s # ts) = (if s = [] then filterBoolean ts else s # filterBoolean ts)"

text \<open>\<^verbatim>\<open>arr.join(sep)\<close> on an array of strings.\<close>

fun join :: "string \<Rightarrow> string list \<Rightarrow> string" where
  "join sep [] = []"
| "join sep [x] = x"
| "join sep (x # y # ys) = x @ sep @ join sep (y # ys)"

definition makeClassName :: "tokens \<Rightarrow> tokens \<Rightarrow> string" where
  "makeClassName prefixed raw =
     (let prefArr = toArray prefixed;
          rawArr = toArray raw;
          prefixClasses = map (\<lambda>p. classPrefix @ ''-'' @ p) (filterBoolean prefArr)
      in join '' '' (prefixClasses @ filterBoolean rawArr))"

definition makeSelectorClassName :: "tokens \<Rightarrow> tokens \<Rightarrow> string" where
  "makeSelectorClassName prefixed raw =
     (let prefArr = toArray prefixed;
          rawArr = toArray raw;
          prefSelectors = map (\<lambda>n. ''.'' @ makeClassName (Many [n]) Absent) prefArr;
          rawSelectors = map (\<lambda>n. ''.'' @ n) (filterBoolean rawArr)
      in join '','' (prefSelectors @ rawSelectors))"

section \<open>The document (browser DOM, as far as the engine reads and writes it)\<close>

text \<open>
  An element is identified by its position in the document tree: the list of child
  indices from the element up to the document element, nearest first. So \<open>i # p\<close> is the
  \<open>i\<close>-th child of \<open>p\<close>, and \<open>[]\<close> is the document element, whose \<^verbatim>\<open>parentElement\<close> is
  \<^verbatim>\<open>null\<close>. The engine never creates, moves or deletes elements; it reads the tree and
  writes class lists.
\<close>

type_synonym node = "nat list"

fun parentElement :: "node \<Rightarrow> node option" where
  "parentElement [] = None"
| "parentElement (i # p) = Some p"

text \<open>\<^verbatim>\<open>a.contains(b)\<close>: \<open>b\<close> is \<open>a\<close> or one of its descendants.\<close>

fun contains :: "node \<Rightarrow> node \<Rightarrow> bool" where
  "contains a [] = (a = [])"
| "contains a (i # p) = (a = i # p \<or> contains a p)"

text \<open>
  JavaScript numbers, as far as the program meets them as indices: an integer or
  \<^verbatim>\<open>NaN\<close>. Fractions and infinities never arise from \<^verbatim>\<open>parseInt\<close> or from the
  renderers' \<^verbatim>\<open>_uiIndex\<close>.
\<close>

datatype number = JNum int | JNaN

text \<open>
  CSS selectors by their abstract syntax, for the fragment whose matching is decided by
  class lists and ancestors: \<^verbatim>\<open>*\<close>, \<^verbatim>\<open>.c\<close>, \<^verbatim>\<open>:not(s)\<close>, the compound \<^verbatim>\<open>st\<close>, the list
  \<^verbatim>\<open>s, t\<close> and the descendant combinator \<^verbatim>\<open>a s\<close>. A string that is no selector (at
  which \<^verbatim>\<open>querySelectorAll\<close> throws) is outside the type.
\<close>

datatype selector =
    SAny
  | SClass string
  | SNot selector
  | SAnd selector selector
  | SOr selector selector
  | SDesc selector selector

text \<open>\<^verbatim>\<open>node.matches(selector)\<close>, given the class list of every element.\<close>

fun ancestors :: "node \<Rightarrow> node list" where
  "ancestors [] = []"
| "ancestors (i # p) = p # ancestors p"

fun matches :: "(node \<Rightarrow> string list) \<Rightarrow> node \<Rightarrow> selector \<Rightarrow> bool" where
  "matches cl n SAny = True"
| "matches cl n (SClass c) = (c \<in> set (cl n))"
| "matches cl n (SNot s) = (\<not> matches cl n s)"
| "matches cl n (SAnd s t) = (matches cl n s \<and> matches cl n t)"
| "matches cl n (SOr s t) = (matches cl n s \<or> matches cl n t)"
| "matches cl n (SDesc a s) = (matches cl n s \<and> list_ex (\<lambda>m. matches cl m a) (ancestors n))"


text \<open>\<^verbatim>\<open>classList.add(c)\<close> and \<^verbatim>\<open>classList.remove(c)\<close> on one class list.\<close>

definition class_add :: "string \<Rightarrow> string list \<Rightarrow> string list" where
  "class_add c cs = (if c \<in> set cs then cs else cs @ [c])"

definition class_remove :: "string \<Rightarrow> string list \<Rightarrow> string list" where
  "class_remove c cs = filter (\<lambda>x. x \<noteq> c) cs"

section \<open>Event delegation engine (utils.js): data\<close>

text \<open>
  An EventSpec \<^verbatim>\<open>{type, selector?, handler}\<close>. A handler is user code; it is known by
  its identity, and calling it is recorded. \<open>None\<close> is a selector that is left out or
  the empty string (both falsy in \<^verbatim>\<open>!ev.selector\<close>).
\<close>

record event_spec =
  ev_type :: string
  ev_selector :: "selector option"
  ev_handler :: nat

text \<open>A native event, as far as the listeners read it.\<close>

record native_event =
  type :: string
  target :: node
  relatedTarget :: "node option"

text \<open>What a handler is given as item data: \<^verbatim>\<open>null\<close>, \<^verbatim>\<open>undefined\<close> or a record.\<close>

datatype 'a jsdata = Null | Undefined | Item 'a

text \<open>One handler invocation \<^verbatim>\<open>ev.handler(e, node, data, index, el)\<close>.\<close>

record 'a call =
  c_handler :: nat
  c_event :: native_event
  c_node :: node
  c_data :: "'a jsdata"
  c_index :: number
  c_root :: node

text \<open>
  The three closures the engine registers as native listeners: the delegation listener
  of one event type (capturing the root, its selector map, its selector-less specs and
  the view data), and the two hover listeners (capturing the root and their shared
  variable \<^verbatim>\<open>currentActive\<close>, here a cell number).
\<close>

datatype 'a closure =
    Delegate node "(selector \<times> event_spec list) list" "event_spec list" "'a list"
  | MouseOver node nat
  | MouseOut node nat

text \<open>
  A registered native listener \<^verbatim>\<open>addEventListener(type, listener)\<close>. Every evaluation of
  a function expression gives a new function object; \<open>l_id\<close> is that identity, by which
  \<^verbatim>\<open>removeEventListener\<close> finds it.
\<close>

record 'a listener =
  l_type :: string
  l_id :: nat
  l_fn :: "'a closure"

text \<open>An entry of a binding record: \<^verbatim>\<open>{type, listener, selectors}\<close>; the hover entries
  have no \<^verbatim>\<open>selectors\<close>.\<close>

record stored =
  s_type :: string
  s_listener :: nat
  s_selectors :: "selector list option"

record 'a state =
  elements :: "node list"
  classList :: "node \<Rightarrow> string list"
  uiIndex :: "node \<Rightarrow> number option"
  dataIndex :: "node \<Rightarrow> string option"
  listeners :: "node \<Rightarrow> 'a listener list"
  EVENT_STORE :: "node \<Rightarrow> stored list option"
  currentActive :: "nat \<Rightarrow> node option"
  fresh :: nat
  calls :: "'a call list"

section \<open>Item data resolution (utils.js, resolveItemData)\<close>







section \<open>Event delegation engine (utils.js): operations\<close>

text \<open>\<^verbatim>\<open>el.querySelectorAll(selector)\<close>: the descendants of \<open>el\<close> that match, in document
  order, as a static list.\<close>

definition querySelectorAll :: "'a state \<Rightarrow> node \<Rightarrow> selector \<Rightarrow> node list" where
  "querySelectorAll st el s =
     filter (\<lambda>n. n \<noteq> el \<and> contains el n \<and> matches (classList st) n s) (elements st)"

definition add_class :: "string \<Rightarrow> node \<Rightarrow> 'a state \<Rightarrow> 'a state" where
  "add_class c n st = st\<lparr>classList := (classList st)(n := class_add c (classList st n))\<rparr>"

definition remove_class :: "string \<Rightarrow> node \<Rightarrow> 'a state \<Rightarrow> 'a state" where
  "remove_class c n st = st\<lparr>classList := (classList st)(n := class_remove c (classList st n))\<rparr>"

text \<open>\<^verbatim>\<open>el.addEventListener(type, f)\<close>; the same function with the same type is not added
  twice.\<close>

definition addEventListener :: "node \<Rightarrow> string \<Rightarrow> nat \<Rightarrow> 'a closure \<Rightarrow> 'a state \<Rightarrow> 'a state" where
  "addEventListener el t f body st =
     (if list_ex (\<lambda>l. l_type l = t \<and> l_id l = f) (listeners st el) then st
      else st\<lparr>listeners := (listeners st)
             (el := listeners st el @ [\<lparr>l_type = t, l_id = f, l_fn = body\<rparr>])\<rparr>)"

definition removeEventListener :: "node \<Rightarrow> string \<Rightarrow> nat \<Rightarrow> 'a state \<Rightarrow> 'a state" where
  "removeEventListener el t f st =
     st\<lparr>listeners := (listeners st)
          (el := filter (\<lambda>l. \<not> (l_type l = t \<and> l_id l = f)) (listeners st el))\<rparr>"

text \<open>The body of \<^verbatim>\<open>selectors.forEach\<close> and of \<^verbatim>\<open>stored.forEach\<close> in unbindEvents.\<close>

definition strip_selector :: "node \<Rightarrow> selector \<Rightarrow> 'a state \<Rightarrow> 'a state" where
  "strip_selector el sel st = fold (remove_class eventClass) (querySelectorAll st el sel) st"

definition unbind_entry :: "node \<Rightarrow> stored \<Rightarrow> 'a state \<Rightarrow> 'a state" where
  "unbind_entry el entry st =
     (let st1 = removeEventListener el (s_type entry) (s_listener entry) st
      in case s_selectors entry of
           None \<Rightarrow> st1
         | Some selectors \<Rightarrow> fold (strip_selector el) selectors st1)"

definition unbindEvents :: "'a state \<Rightarrow> node option \<Rightarrow> 'a state" where
  "unbindEvents st el =
     (case el of
        None \<Rightarrow> st
      | Some e \<Rightarrow>
          (case EVENT_STORE st e of
             None \<Rightarrow> st
           | Some stored \<Rightarrow> fold (unbind_entry e) stored st))"

text \<open>
  Setting a key of an insertion-ordered table (\<^verbatim>\<open>Map.set\<close>, or a property of a plain
  object): an existing key keeps its place, a new one goes last.
\<close>

fun table_set :: "'k \<Rightarrow> 'v \<Rightarrow> ('k \<times> 'v) list \<Rightarrow> ('k \<times> 'v) list" where
  "table_set k v [] = [(k, v)]"
| "table_set k v ((k', v') # kvs) =
     (if k' = k then (k, v) # kvs else (k', v') # table_set k v kvs)"

text \<open>
  The accumulator of \<^verbatim>\<open>events.reduce\<close> is a plain object \<^verbatim>\<open>{}\<close>. For an event type that
  names a member of \<^verbatim>\<open>Object.prototype\<close>, \<^verbatim>\<open>acc[event.type]\<close> is that inherited member:
  it is truthy, so no array is stored, and it has no \<^verbatim>\<open>push\<close>: the call throws a
  TypeError.
\<close>

definition proto_member :: "string \<Rightarrow> bool" where
  "proto_member t = (t \<in> set [''constructor'', ''hasOwnProperty'', ''isPrototypeOf'',
     ''propertyIsEnumerable'', ''toLocaleString'', ''toString'', ''valueOf'', ''__proto__'',
     ''__defineGetter__'', ''__defineSetter__'', ''__lookupGetter__'', ''__lookupSetter__''])"

datatype error = TypeError | Error string

text \<open>
  \<^verbatim>\<open>events.reduce((acc, event) => { if (!acc[event.type]) acc[event.type] = [];
  acc[event.type].push(event); return acc; }, {})\<close>; \<open>None\<close> when it throws. The groups
  are kept in the order in which their types first occur; the order between groups
  decides only the order in which the listeners of different types are registered.
\<close>

fun group_events ::
  "(string \<times> event_spec list) list \<Rightarrow> event_spec list \<Rightarrow> (string \<times> event_spec list) list option"
where
  "group_events acc [] = Some acc"
| "group_events acc (ev # evs) =
     (if proto_member (ev_type ev) then None
      else group_events
             (table_set (ev_type ev)
                ((case map_of acc (ev_type ev) of None \<Rightarrow> [] | Some l \<Rightarrow> l) @ [ev]) acc)
             evs)"

text \<open>The body of \<^verbatim>\<open>eventList.forEach\<close>: the selector map, the selector-less specs and
  the document with its marker classes.\<close>

definition add_spec ::
  "node \<Rightarrow> event_spec
   \<Rightarrow> (selector \<times> event_spec list) list \<times> event_spec list \<times> 'a state
   \<Rightarrow> (selector \<times> event_spec list) list \<times> event_spec list \<times> 'a state"
where
  "add_spec el ev acc =
     (case acc of (selectorMap, elEvents, st) \<Rightarrow>
        (case ev_selector ev of
           None \<Rightarrow> (selectorMap, elEvents @ [ev], st)
         | Some sel \<Rightarrow>
             (table_set sel
                ((case map_of selectorMap sel of None \<Rightarrow> [] | Some l \<Rightarrow> l) @ [ev]) selectorMap,
              elEvents,
              fold (add_class eventClass) (querySelectorAll st el sel) st)))"

text \<open>The body of \<^verbatim>\<open>Object.entries(grouped).forEach\<close>: one listener for the type.\<close>

definition bind_group ::
  "node \<Rightarrow> 'a list \<Rightarrow> string \<times> event_spec list
   \<Rightarrow> 'a state \<times> stored list \<Rightarrow> 'a state \<times> stored list"
where
  "bind_group el viewData g acc =
     (case (g, acc) of ((t, eventList), (st, ls)) \<Rightarrow>
        (case fold (add_spec el) eventList ([], [], st) of
           (selectorMap, elEvents, st1) \<Rightarrow>
             (let f = fresh st1;
                  st2 = addEventListener el t f (Delegate el selectorMap elEvents viewData)
                          (st1\<lparr>fresh := Suc f\<rparr>)
              in (st2, ls @ [\<lparr>s_type = t, s_listener = f,
                               s_selectors = Some (map fst selectorMap)\<rparr>]))))"

text \<open>
  enableNearestHover: a new variable \<^verbatim>\<open>currentActive = null\<close>, the two listeners, and their
  entries pushed onto the root's binding record.
\<close>

definition enableNearestHover :: "'a state \<Rightarrow> node option \<Rightarrow> 'a state" where
  "enableNearestHover st el =
     (case el of
        None \<Rightarrow> st
      | Some e \<Rightarrow>
          (let c = fresh st;
               st1 = st\<lparr>currentActive := (currentActive st)(c := None), fresh := c + 2\<rparr>;
               st2 = addEventListener e ''mouseover'' c (MouseOver e c) st1;
               st3 = addEventListener e ''mouseout'' (Suc c) (MouseOut e c) st2;
               stored = (case EVENT_STORE st3 e of None \<Rightarrow> [] | Some s \<Rightarrow> s)
           in st3\<lparr>EVENT_STORE := (EVENT_STORE st3)
                  (e \<mapsto> stored @ [\<lparr>s_type = ''mouseover'', s_listener = c, s_selectors = None\<rparr>,
                                  \<lparr>s_type = ''mouseout'', s_listener = Suc c, s_selectors = None\<rparr>])\<rparr>))"

text \<open>
  bindEvents. \<open>Inl\<close> is a thrown error together with the state it leaves behind (the
  unbind has already happened when the grouping throws).
\<close>

definition bindEvents ::
  "'a state \<Rightarrow> node option \<Rightarrow> event_spec list \<Rightarrow> 'a list \<Rightarrow> (error \<times> 'a state) + 'a state"
where
  "bindEvents st el events viewData =
     (case el of
        None \<Rightarrow> Inr st
      | Some e \<Rightarrow>
          if events = [] then Inr st
          else
            (let st0 = unbindEvents st (Some e)
             in case group_events [] events of
                  None \<Rightarrow> Inl (TypeError, st0)
                | Some grouped \<Rightarrow>
                    (case fold (bind_group e viewData) grouped (st0, []) of
                       (st1, ls) \<Rightarrow>
                         Inr (enableNearestHover
                                (st1\<lparr>EVENT_STORE := (EVENT_STORE st1)(e \<mapsto> ls)\<rparr>) (Some e)))))"

section \<open>The listeners' bodies\<close>









section \<open>Specification vocabulary for the engine's claims\<close>





section \<open>Sequences of engine calls\<close>








section \<open>The dispatch rule, in the specification's words\<close>

text \<open>The nodes the listener's loop visits: the target and its ancestors below the root.\<close>

definition dispatch_path :: "node \<Rightarrow> node \<Rightarrow> node list" where
  "dispatch_path el t = takeWhile (\<lambda>n. n \<noteq> el) (t # ancestors t)"



section \<open>Vocabulary of the proofs about the engine\<close>





text \<open>The selector map of one group, without the marking that the loop interleaves.\<close>

definition sel_step ::
  "event_spec \<Rightarrow> (selector \<times> event_spec list) list \<Rightarrow> (selector \<times> event_spec list) list" where
  "sel_step ev sm =
     (case ev_selector ev of
        None \<Rightarrow> sm
      | Some sel \<Rightarrow> table_set sel ((case map_of sm sel of None \<Rightarrow> [] | Some l \<Rightarrow> l) @ [ev]) sm)"

definition selector_map :: "event_spec list \<Rightarrow> (selector \<times> event_spec list) list" where
  "selector_map L = fold sel_step L []"

definition selectorless :: "event_spec list \<Rightarrow> event_spec list" where
  "selectorless L = filter (\<lambda>ev. ev_selector ev = None) L"

text \<open>The selectors of a list of specs, in order, with repetitions.\<close>

definition selectors_of :: "event_spec list \<Rightarrow> selector list" where
  "selectors_of L = List.map_filter ev_selector L"

text \<open>The listeners and the record entries that bindEvents makes for the groups, with
  function identities counted from \<open>f\<close>, and those of enableNearestHover.\<close>

fun delegates :: "node \<Rightarrow> 'a list \<Rightarrow> nat \<Rightarrow> (string \<times> event_spec list) list \<Rightarrow> 'a listener list" where
  "delegates el vd f [] = []"
| "delegates el vd f ((t, L) # g) =
     \<lparr>l_type = t, l_id = f, l_fn = Delegate el (selector_map L) (selectorless L) vd\<rparr>
       # delegates el vd (Suc f) g"

fun records :: "nat \<Rightarrow> (string \<times> event_spec list) list \<Rightarrow> stored list" where
  "records f [] = []"
| "records f ((t, L) # g) =
     \<lparr>s_type = t, s_listener = f, s_selectors = Some (map fst (selector_map L))\<rparr>
       # records (Suc f) g"




section \<open>Marker classes: vocabulary\<close>

text \<open>A selector that tests class \<open>c\<close> somewhere.\<close>

fun mentions :: "string \<Rightarrow> selector \<Rightarrow> bool" where
  "mentions c SAny = False"
| "mentions c (SClass d) = (d = c)"
| "mentions c (SNot s) = mentions c s"
| "mentions c (SAnd s t) = (mentions c s \<or> mentions c t)"
| "mentions c (SOr s t) = (mentions c s \<or> mentions c t)"
| "mentions c (SDesc a s) = (mentions c a \<or> mentions c s)"

text \<open>Two documents whose class lists differ at most in class \<open>c\<close>.\<close>

definition same_but :: "string \<Rightarrow> (node \<Rightarrow> string list) \<Rightarrow> (node \<Rightarrow> string list) \<Rightarrow> bool" where
  "same_but c cl cl' \<longleftrightarrow> (\<forall>n. class_remove c (cl n) = class_remove c (cl' n))"

text \<open>The second document arises from the first by removing (adding) class \<open>c\<close> at some
  elements.\<close>

definition strips :: "string \<Rightarrow> (node \<Rightarrow> string list) \<Rightarrow> (node \<Rightarrow> string list) \<Rightarrow> bool" where
  "strips c cl cl' \<longleftrightarrow> (\<forall>n. cl' n = cl n \<or> cl' n = class_remove c (cl n))"

definition adds :: "string \<Rightarrow> (node \<Rightarrow> string list) \<Rightarrow> (node \<Rightarrow> string list) \<Rightarrow> bool" where
  "adds c cl cl' \<longleftrightarrow> (\<forall>n. cl' n = cl n \<or> cl' n = class_add c (cl n))"

text \<open>The selectors of a record entry, and the selector of a spec, that do not test the
  marker class.\<close>

definition entry_selectors :: "stored \<Rightarrow> selector set" where
  "entry_selectors entry =
     (case s_selectors entry of
        None \<Rightarrow> {}
      | Some sels \<Rightarrow> {s \<in> set sels. \<not> mentions eventClass s})"



section \<open>Hover activation: vocabulary\<close>





section \<open>Renderers (PanelRender.js, listView.js): root lookup and view data\<close>

text \<open>A schema maps each field name to a function of the raw record and the name, or to
  a literal.\<close>

datatype ('r, 'v) field = Fn "'r \<Rightarrow> string \<Rightarrow> 'v" | Lit 'v

text \<open>\<^verbatim>\<open>createMapper(schema)\<close>: the mapper builds one view record from one raw record.\<close>

definition createMapper :: "(string \<times> ('r, 'v) field) list \<Rightarrow> 'r \<Rightarrow> (string \<times> 'v) list" where
  "createMapper schema data =
     fold (\<lambda>entry result.
             case entry of (key, mapper) \<Rightarrow>
               table_set key (case mapper of Fn f \<Rightarrow> f data key | Lit v \<Rightarrow> v) result)
       schema []"

text \<open>An element of the view data: a raw record passed through, or a mapped record.\<close>

datatype ('r, 'v) view = Raw 'r | Mapped "(string \<times> 'v) list"

text \<open>\<^verbatim>\<open>data.slice(0, end)\<close> for an integer or undefined \<^verbatim>\<open>end\<close>.\<close>

definition slice0 :: "'a list \<Rightarrow> int option \<Rightarrow> 'a list" where
  "slice0 xs end =
     (case end of
        None \<Rightarrow> xs
      | Some e \<Rightarrow> if e < 0 then take (nat (int (length xs) + e)) xs else take (nat e) xs)"

text \<open>
  The options a renderer reads here: \<^verbatim>\<open>size\<close> and \<^verbatim>\<open>events\<close>, each possibly left out.
  Neither value is a plain mapping, so deepMerge takes the source's value when the source
  has the key and the target's otherwise.
\<close>

record options =
  opt_size :: "int option"
  opt_events :: "event_spec list option"

definition merge_options :: "options \<Rightarrow> options \<Rightarrow> options" where
  "merge_options t s =
     \<lparr>opt_size = (case opt_size s of None \<Rightarrow> opt_size t | Some n \<Rightarrow> Some n),
      opt_events = (case opt_events s of None \<Rightarrow> opt_events t | Some evs \<Rightarrow> Some evs)\<rparr>"

text \<open>The defaults \<^verbatim>\<open>{size: 5, events: [], emptyText: ...}\<close> of both constructors.\<close>

definition default_options :: options where
  "default_options = \<lparr>opt_size = Some 5, opt_events = Some []\<rparr>"

text \<open>The \<^verbatim>\<open>events\<close> argument of bindEvents, with its default \<^verbatim>\<open>[]\<close>.\<close>

definition events_of :: "options \<Rightarrow> event_spec list" where
  "events_of opts = (case opt_events opts of None \<Rightarrow> [] | Some evs \<Rightarrow> evs)"

text \<open>
  \<^verbatim>\<open>PanelRender.render(panelId, title, data, schema, options, custom)\<close>. The document is
  given by its \<^verbatim>\<open>getElementById\<close>. The DOM work of a render pass (clearing the root, then
  header, body and footer, by the default code or by the custom slots) is the parameter
  \<open>build\<close>; the title and the custom slots reach only that work. \<open>this_options\<close> is
  \<^verbatim>\<open>this.options\<close>. The result is the thrown error, or the state and the view data.
\<close>

definition PanelRender_viewData ::
  "options \<Rightarrow> 'r list \<Rightarrow> (string \<times> ('r, 'v) field) list option \<Rightarrow> ('r, 'v) view list" where
  "PanelRender_viewData panelOptions data schema =
     (case schema of
        None \<Rightarrow> map Raw data
      | Some sch \<Rightarrow>
          map (\<lambda>d. Mapped (createMapper sch d)) (slice0 data (opt_size panelOptions)))"

definition PanelRender_render ::
  "(string \<Rightarrow> node option)
   \<Rightarrow> (node \<Rightarrow> ('r, 'v) view list \<Rightarrow> ('r, 'v) view state \<Rightarrow> ('r, 'v) view state)
   \<Rightarrow> options \<Rightarrow> ('r, 'v) view state \<Rightarrow> string \<Rightarrow> 'r list
   \<Rightarrow> (string \<times> ('r, 'v) field) list option \<Rightarrow> options
   \<Rightarrow> (error \<times> ('r, 'v) view state) + (('r, 'v) view state \<times> ('r, 'v) view list)"
where
  "PanelRender_render getElementById build this_options st panelId data schema opts =
     (case getElementById panelId of
        None \<Rightarrow> Inl (Error (''No panel element with id '' @ panelId), st)
      | Some panelEl \<Rightarrow>
          (let panelOptions = merge_options this_options opts;
               viewData = PanelRender_viewData panelOptions data schema;
               st1 = build panelEl viewData st
           in case bindEvents st1 (Some panelEl) (events_of panelOptions) viewData of
                Inl (e, st2) \<Rightarrow> Inl (e, st2)
              | Inr st2 \<Rightarrow> Inr (st2, viewData)))"

text \<open>
  The newer ListView: \<^verbatim>\<open>init(data)\<close> looks the root up, then \<^verbatim>\<open>draw()\<close> computes the view
  data, draws and binds. \<open>lv_options\<close> is \<^verbatim>\<open>this.options\<close>, merged by the constructor.
\<close>

definition ListView_viewData ::
  "options \<Rightarrow> 'r list \<Rightarrow> (string \<times> ('r, 'v) field) list option \<Rightarrow> ('r, 'v) view list" where
  "ListView_viewData lv_options data schema =
     (case schema of
        None \<Rightarrow> map Raw (slice0 data (opt_size lv_options))
      | Some sch \<Rightarrow>
          map (\<lambda>d. Mapped (createMapper sch d)) (slice0 data (opt_size lv_options)))"

definition ListView_draw ::
  "(node \<Rightarrow> ('r, 'v) view list \<Rightarrow> ('r, 'v) view state \<Rightarrow> ('r, 'v) view state)
   \<Rightarrow> options \<Rightarrow> ('r, 'v) view state \<Rightarrow> node \<Rightarrow> 'r list
   \<Rightarrow> (string \<times> ('r, 'v) field) list option
   \<Rightarrow> (error \<times> ('r, 'v) view state) + (('r, 'v) view state \<times> ('r, 'v) view list)"
where
  "ListView_draw build lv_options st el data schema =
     (let viewData = ListView_viewData lv_options data schema;
          st1 = build el viewData st
      in case bindEvents st1 (Some el) (events_of lv_options) viewData of
           Inl (e, st2) \<Rightarrow> Inl (e, st2)
         | Inr st2 \<Rightarrow> Inr (st2, viewData))"

definition ListView_init ::
  "(string \<Rightarrow> node option)
   \<Rightarrow> (node \<Rightarrow> ('r, 'v) view list \<Rightarrow> ('r, 'v) view state \<Rightarrow> ('r, 'v) view state)
   \<Rightarrow> options \<Rightarrow> ('r, 'v) view state \<Rightarrow> string \<Rightarrow> 'r list
   \<Rightarrow> (string \<times> ('r, 'v) field) list option
   \<Rightarrow> (error \<times> ('r, 'v) view state) + (('r, 'v) view state \<times> ('r, 'v) view list)"
where
  "ListView_init getElementById build lv_options st rootId data schema =
     (case getElementById rootId of
        None \<Rightarrow> Inl (Error (''No listView element with id '' @ rootId), st)
      | Some el \<Rightarrow> ListView_draw build lv_options st el data schema)"

text \<open>A page with a root \<open>[0]\<close> whose id is \<^verbatim>\<open>panel\<close>, and nothing else.\<close>

definition blank_page :: "'a state" where
  "blank_page = \<lparr>elements = [[], [0]], classList = (\<lambda>n. []), uiIndex = (\<lambda>n. None),
                 dataIndex = (\<lambda>n. None), listeners = (\<lambda>n. []), EVENT_STORE = (\<lambda>n. None),
                 currentActive = (\<lambda>c. None), fresh = 0, calls = []\<rparr>"

definition panel_document :: "string \<Rightarrow> node option" where
  "panel_document rootId = (if rootId = ''panel'' then Some [0] else None)"

section \<open>Option merger (utils.js, deepMerge)\<close>

text \<open>
  JavaScript values and the heap of objects. A value is a primitive, a function (known by
  its identity) or a reference to an object of the heap; an object is a plain object (its
  own enumerable properties, in order) or an array. The heap is the list of all objects
  allocated so far; a reference is an index into it. Numbers are the integers; property
  reads see own properties only (a configuration key does not name a member of
  \<^verbatim>\<open>Object.prototype\<close>); properties are kept in the order in which they were added (keys
  that are array indices, which JavaScript lists first, are not singled out).
\<close>

datatype val =
    VUndefined | VNull | VBool bool | VNum int | VStr string | VFun nat | VRef nat

datatype obj = Obj "(string \<times> val) list" | Arr "val list"

type_synonym heap = "obj list"

definition heap_at :: "heap \<Rightarrow> nat \<Rightarrow> obj option" where
  "heap_at h a = (if a < length h then Some (h ! a) else None)"

text \<open>\<^verbatim>\<open>Boolean(v)\<close>.\<close>

fun truthy :: "val \<Rightarrow> bool" where
  "truthy VUndefined = False"
| "truthy VNull = False"
| "truthy (VBool b) = b"
| "truthy (VNum n) = (n \<noteq> 0)"
| "truthy (VStr s) = (s \<noteq> [])"
| "truthy (VFun f) = True"
| "truthy (VRef a) = True"

text \<open>The decimal name of an array index.\<close>

fun index_name :: "nat \<Rightarrow> string" where
  "index_name n =
     (let last_digit = ''0123456789'' ! (n mod 10)
      in if n < 10 then [last_digit] else index_name (n div 10) @ [last_digit])"

definition indexed :: "'a list \<Rightarrow> (string \<times> 'a) list" where
  "indexed xs = zip (map index_name [0..<length xs]) xs"

text \<open>The own enumerable properties of a value, as \<^verbatim>\<open>{...v}\<close> and \<^verbatim>\<open>for (key in v)\<close> see
  them: those of an object, the elements of an array or the characters of a string under
  their indices, and none for the other values.\<close>

definition own_props :: "heap \<Rightarrow> val \<Rightarrow> (string \<times> val) list" where
  "own_props h v =
     (case v of
        VRef a \<Rightarrow>
          (case heap_at h a of
             Some (Obj ps) \<Rightarrow> ps
           | Some (Arr xs) \<Rightarrow> indexed xs
           | None \<Rightarrow> [])
      | VStr s \<Rightarrow> indexed (map (\<lambda>c. VStr [c]) s)
      | _ \<Rightarrow> [])"

text \<open>\<^verbatim>\<open>v[key]\<close>: a TypeError on \<^verbatim>\<open>undefined\<close> and \<^verbatim>\<open>null\<close>.\<close>

definition get_prop :: "heap \<Rightarrow> val \<Rightarrow> string \<Rightarrow> error + val" where
  "get_prop h v key =
     (case v of
        VUndefined \<Rightarrow> Inl TypeError
      | VNull \<Rightarrow> Inl TypeError
      | VRef a \<Rightarrow>
          (case heap_at h a of
             Some (Arr xs) \<Rightarrow>
               if key = ''length'' then Inr (VNum (int (length xs)))
               else Inr (case map_of (indexed xs) key of None \<Rightarrow> VUndefined | Some x \<Rightarrow> x)
           | _ \<Rightarrow> Inr (case map_of (own_props h v) key of None \<Rightarrow> VUndefined | Some x \<Rightarrow> x))
      | VStr s \<Rightarrow>
          if key = ''length'' then Inr (VNum (int (length s)))
          else Inr (case map_of (own_props h v) key of None \<Rightarrow> VUndefined | Some x \<Rightarrow> x)
      | _ \<Rightarrow> Inr VUndefined)"

text \<open>\<^verbatim>\<open>v && typeof v === "object" && !Array.isArray(v)\<close>.\<close>

definition is_plain :: "heap \<Rightarrow> val \<Rightarrow> bool" where
  "is_plain h v =
     (case v of
        VRef a \<Rightarrow> (case heap_at h a of Some (Obj ps) \<Rightarrow> True | _ \<Rightarrow> False)
      | _ \<Rightarrow> False)"

text \<open>A new object, and \<^verbatim>\<open>result[key] = v\<close> on a plain object.\<close>

definition alloc :: "heap \<Rightarrow> obj \<Rightarrow> heap \<times> nat" where
  "alloc h ob = (h @ [ob], length h)"

definition set_prop :: "heap \<Rightarrow> nat \<Rightarrow> string \<Rightarrow> val \<Rightarrow> heap" where
  "set_prop h a key v =
     (case heap_at h a of
        Some (Obj ps) \<Rightarrow> h[a := Obj (table_set key v ps)]
      | _ \<Rightarrow> h)"

text \<open>
  The loop \<^verbatim>\<open>for (const key in source) { ... }\<close> over the keys of \<open>source\<close>, with the
  recursive call as a parameter. \<open>None\<close>: the call did not return.
\<close>

fun merge_keys ::
  "(heap \<Rightarrow> val \<Rightarrow> val \<Rightarrow> (error + heap \<times> val) option)
   \<Rightarrow> heap \<Rightarrow> nat \<Rightarrow> val \<Rightarrow> val \<Rightarrow> string list \<Rightarrow> (error + heap) option"
where
  "merge_keys recur h result tgt src [] = Some (Inr h)"
| "merge_keys recur h result tgt src (key # keys) =
     (case get_prop h src key of
        Inl e \<Rightarrow> Some (Inl e)
      | Inr sv \<Rightarrow>
          if is_plain h sv then
            (case get_prop h tgt key of
               Inl e \<Rightarrow> Some (Inl e)
             | Inr tv \<Rightarrow>
                 (case (if truthy tv then (h, tv)
                        else (case alloc h (Obj []) of (h1, a) \<Rightarrow> (h1, VRef a))) of
                    (h1, arg) \<Rightarrow>
                      (case recur h1 arg sv of
                         None \<Rightarrow> None
                       | Some (Inl e) \<Rightarrow> Some (Inl e)
                       | Some (Inr (h2, v)) \<Rightarrow>
                           merge_keys recur (set_prop h2 result key v) result tgt src keys)))
          else merge_keys recur (set_prop h result key sv) result tgt src keys)"

text \<open>
  deepMerge with a bound on the depth of the recursion: \<open>None\<close> when the bound is reached
  (a source that contains itself never returns). \<^verbatim>\<open>const result = {...target}\<close> allocates
  the result; the loop writes to it; \<^verbatim>\<open>return result\<close>.
\<close>

primrec deepMerge :: "nat \<Rightarrow> heap \<Rightarrow> val \<Rightarrow> val \<Rightarrow> (error + heap \<times> val) option" where
  "deepMerge 0 = (\<lambda>h tgt src. None)"
| "deepMerge (Suc n) = (\<lambda>h tgt src.
     case alloc h (Obj (own_props h tgt)) of
       (h1, result) \<Rightarrow>
         (case merge_keys (deepMerge n) h1 result tgt src
                 (map fst (own_props h1 src)) of
            None \<Rightarrow> None
          | Some (Inl e) \<Rightarrow> Some (Inl e)
          | Some (Inr h2) \<Rightarrow> Some (Inr (h2, VRef result))))"

text \<open>
  Configuration objects as values: what a reference denotes when the objects reachable from
  it form a finite tree. \<open>reads A h v t\<close>: in the heap \<open>h\<close> the value \<open>v\<close> denotes the tree
  \<open>t\<close>, and no object at an address of \<open>A\<close> is part of it. The keys of an object are
  distinct.
\<close>

datatype tree =
    TUndefined | TNull | TBool bool | TNum int | TStr string | TFun nat
  | TObj "(string \<times> tree) list" | TArr "tree list"





text \<open>
  The merge in the words of the specification, on trees: for each key of the source, a
  plain mapping is merged recursively into the corresponding mapping of the target (the
  empty mapping when the target has none), and any other value replaces the target's
  value. The keys of the target keep their places, new keys follow in the order of the
  source.
\<close>

definition props_of :: "tree \<Rightarrow> (string \<times> tree) list" where
  "props_of t = (case t of TObj ps \<Rightarrow> ps | _ \<Rightarrow> [])"

definition mapping_at :: "tree \<Rightarrow> string \<Rightarrow> tree" where
  "mapping_at t key = (case map_of (props_of t) key of Some (TObj m) \<Rightarrow> TObj m | _ \<Rightarrow> TObj [])"

fun merge_spec :: "tree \<Rightarrow> tree \<Rightarrow> tree"
  and merge_props :: "tree \<Rightarrow> (string \<times> tree) list \<Rightarrow> (string \<times> tree) list \<Rightarrow> (string \<times> tree) list"
where
  "merge_spec t (TObj sps) = TObj (merge_props t sps (props_of t))"
| "merge_spec t s = TObj (props_of t)"
| "merge_props t [] res = res"
| "merge_props t ((key, sv) # sps) res =
     merge_props t sps
       (table_set key (case sv of TObj m \<Rightarrow> merge_spec (mapping_at t key) (TObj m) | _ \<Rightarrow> sv) res)"




text \<open>The two examples of the specification, as heaps: target at address 1, source at 3;
  and \<^verbatim>\<open>{a: "hi"}\<close> (address 0) with \<^verbatim>\<open>{a: {x: 1}}\<close> (address 2).\<close>

definition merge_heap1 :: heap where
  "merge_heap1 =
     [Obj [(''x'', VNum 1), (''y'', VNum 2)], Obj [(''a'', VRef 0)],
      Obj [(''y'', VNum 9), (''z'', VNum 3)], Obj [(''a'', VRef 2)]]"

definition merge_heap2 :: heap where
  "merge_heap2 =
     [Arr [VNum 1, VNum 2], Obj [(''arr'', VRef 0)],
      Arr [VNum 9], Obj [(''arr'', VRef 2)]]"


section \<open>Class-name builder: results\<close>

lemma makeClassName_example:
  "makeClassName (Many [Some ''panel'']) (Many [Some ''active'']) = ''dh-panel active''"
  by (simp add: makeClassName_def classPrefix_def)

lemma dataBind_selector:
  "makeSelectorClassName (Many []) (Many [Some dataBindClass]) = ''.data-bind-item''"
  by (simp add: makeSelectorClassName_def dataBindClass_def)

lemma makeSelectorClassName_example:
  "makeSelectorClassName (Many [Some ''panel-item'', Some ''panel-header'']) Absent
     = ''.dh-panel-item,.dh-panel-header''"
  by (simp add: makeSelectorClassName_def makeClassName_def classPrefix_def)

lemma makeClassName_drops_falsy:
  "makeClassName (Many ps) (Many rs)
     = join '' '' (map (\<lambda>p. ''dh-'' @ p) (filterBoolean ps) @ filterBoolean rs)"
  by (simp add: makeClassName_def classPrefix_def)

text \<open>
  C6. makeClassName joins the prefixed and the raw tokens with spaces and drops the falsy
  ones, and makeSelectorClassName filters its raw tokens the same way; its prefixed
  tokens, however, are mapped without the filter, so an empty or nullish prefixed token
  is not dropped: it leaves the fragment \<^verbatim>\<open>"."\<close> in the selector.
\<close>

theorem makeSelectorClassName_keeps_falsy_prefixed:
  "makeSelectorClassName (Many [Some ''panel-item'', Some '''']) Absent = ''.dh-panel-item,.''
   \<and> makeSelectorClassName (Many [None]) (Many [None, Some ''x'']) = ''.,.x''
   \<and> makeClassName (Many [Some ''panel-item'', Some '''']) Absent = ''dh-panel-item''"
  by (simp add: makeSelectorClassName_def makeClassName_def classPrefix_def)

section \<open>The document: ancestors and \<open>closest\<close>\<close>

lemma contains_refl [simp]: "contains a a"
  by (cases a) auto



lemma contains_trans: "contains a b \<Longrightarrow> contains b c \<Longrightarrow> contains a c"
  by (induction c) auto








section \<open>Item data resolution: results\<close>





text \<open>
  C10. bindEvents with an empty list of event specs, or with no root, returns at once and
  changes nothing: no listener is added, the hover engine is not enabled, and the binding
  record, the registered listeners and the marker classes stay as they were; no unbind
  is done.
\<close>

theorem bindEvents_nothing_to_bind:
  "bindEvents st el [] viewData = Inr st \<and> bindEvents st None events viewData = Inr st"
  by (simp add: bindEvents_def split: option.split)

section \<open>Event delegation engine: lemmas\<close>


lemma class_remove_idem [simp]: "class_remove c (class_remove c cs) = class_remove c cs"
  by (simp add: class_remove_def)


lemma set_class_remove [simp]: "set (class_remove c cs) = set cs - {c}"
  by (auto simp: class_remove_def)



lemma fold_remove_class:
  "fold (remove_class c) ns st =
     st\<lparr>classList := (\<lambda>n. if n \<in> set ns then class_remove c (classList st n) else classList st n)\<rparr>"
proof (induction ns arbitrary: st)
  case Nil
  show ?case by simp
next
  case (Cons a ns)
  show ?case
    by (simp add: Cons.IH) (auto simp: remove_class_def fun_eq_iff)
qed

lemma strip_selector_eq:
  "strip_selector el sel st =
     st\<lparr>classList := (\<lambda>n. if n \<in> set (querySelectorAll st el sel)
                             then class_remove eventClass (classList st n) else classList st n)\<rparr>"
  by (simp add: strip_selector_def fold_remove_class)









lemma delegates_append:
  "delegates el vd f (g @ h) = delegates el vd f g @ delegates el vd (f + length g) h"
  by (induction g arbitrary: f) auto

lemma records_append: "records f (g @ h) = records f g @ records (f + length g) h"
  by (induction g arbitrary: f) auto



lemma map_of_table_set: "map_of (table_set k v t) = (map_of t)(k \<mapsto> v)"
  by (induction t) (auto simp: fun_eq_iff)










lemma selectors_of_Nil [simp]: "selectors_of [] = []"
  by (simp add: selectors_of_def map_filter_simps)

lemma selectors_of_Cons [simp]:
  "selectors_of (ev # L) =
     (case ev_selector ev of None \<Rightarrow> selectors_of L | Some s \<Rightarrow> s # selectors_of L)"
  by (simp add: selectors_of_def map_filter_simps split: option.split)










lemma dispatch_path_Nil [simp]: "dispatch_path el [] = (if [] = el then [] else [[]])"
  by (simp add: dispatch_path_def)

lemma dispatch_path_Cons [simp]:
  "dispatch_path el (i # p) = (if i # p = el then [] else (i # p) # dispatch_path el p)"
  by (cases p) (simp_all add: dispatch_path_def)









































section \<open>Marker classes and hover activation: lemmas\<close>

lemma same_but_refl [simp]: "same_but c cl cl"
  by (simp add: same_but_def)

lemma same_but_trans: "same_but c a b \<Longrightarrow> same_but c b d \<Longrightarrow> same_but c a d"
  by (simp add: same_but_def)

lemma same_but_sym: "same_but c a b \<Longrightarrow> same_but c b a"
  by (simp add: same_but_def)

lemma strips_refl [simp]: "strips c cl cl"
  by (simp add: strips_def)

lemma strips_trans: "strips c a b \<Longrightarrow> strips c b d \<Longrightarrow> strips c a d"
  unfolding strips_def by (metis class_remove_idem)

lemma strips_same_but: "strips c a b \<Longrightarrow> same_but c a b"
  unfolding strips_def same_but_def by (metis class_remove_idem)

lemma strips_stays_off: "strips c a b \<Longrightarrow> c \<notin> set (a n) \<Longrightarrow> c \<notin> set (b n)"
  unfolding strips_def by (metis DiffD1 set_class_remove)

lemma adds_refl [simp]: "adds c cl cl"
  by (simp add: adds_def)




lemma class_remove_mem: "d \<noteq> c \<Longrightarrow> d \<in> set (class_remove c xs) \<longleftrightarrow> d \<in> set xs"
  by simp

lemma matches_same_but:
  "same_but c cl cl' \<Longrightarrow> \<not> mentions c s \<Longrightarrow> matches cl n s = matches cl' n s"
proof (induction s arbitrary: n)
  case (SClass d)
  then have "d \<noteq> c" by simp
  moreover from SClass have "class_remove c (cl n) = class_remove c (cl' n)"
    by (simp add: same_but_def)
  ultimately show ?case by (metis class_remove_mem matches.simps(2))
next
  case (SDesc a s)
  then show ?case by (simp add: list_ex_iff)
qed simp_all

lemma querySelectorAll_same_but:
  "elements st' = elements st \<Longrightarrow> same_but c (classList st) (classList st') \<Longrightarrow>
   \<not> mentions c s \<Longrightarrow> querySelectorAll st' el s = querySelectorAll st el s"
  unfolding querySelectorAll_def
  using matches_same_but[of c "classList st" "classList st'" s] by simp

text \<open>What stripping one selector does to the document.\<close>

lemma strip_selector_effect:
  "elements (strip_selector el sel st) = elements st"
  "strips eventClass (classList st) (classList (strip_selector el sel st))"
  "n \<in> set (querySelectorAll st el sel) \<Longrightarrow>
     eventClass \<notin> set (classList (strip_selector el sel st) n)"
  by (simp_all add: strip_selector_eq strips_def)

lemma fold_strip_selector_effect:
  "elements (fold (strip_selector el) sels st) = elements st
   \<and> strips eventClass (classList st) (classList (fold (strip_selector el) sels st))
   \<and> (\<forall>s\<in>set sels. \<not> mentions eventClass s \<longrightarrow>
        (\<forall>n\<in>set (querySelectorAll st el s).
           eventClass \<notin> set (classList (fold (strip_selector el) sels st) n)))"
proof (induction sels arbitrary: st)
  case Nil
  show ?case by simp
next
  case (Cons a sels)
  let ?st1 = "strip_selector el a st"
  let ?st2 = "fold (strip_selector el) sels ?st1"
  note e1 = strip_selector_effect[where el=el and sel=a and st=st]
  from Cons.IH[of ?st1] have
    i1: "elements ?st2 = elements ?st1" and
    i2: "strips eventClass (classList ?st1) (classList ?st2)" and
    i3: "\<And>s n. s \<in> set sels \<Longrightarrow> \<not> mentions eventClass s \<Longrightarrow>
           n \<in> set (querySelectorAll ?st1 el s) \<Longrightarrow> eventClass \<notin> set (classList ?st2 n)"
    by blast+
  have q: "\<not> mentions eventClass s \<Longrightarrow> querySelectorAll ?st1 el s = querySelectorAll st el s" for s
    by (rule querySelectorAll_same_but[OF e1(1) strips_same_but[OF e1(2)]])
  have "s \<in> set (a # sels) \<Longrightarrow> \<not> mentions eventClass s \<Longrightarrow>
          n \<in> set (querySelectorAll st el s) \<Longrightarrow> eventClass \<notin> set (classList ?st2 n)" for s n
  proof -
    assume s: "s \<in> set (a # sels)" and m: "\<not> mentions eventClass s"
      and n: "n \<in> set (querySelectorAll st el s)"
    show "eventClass \<notin> set (classList ?st2 n)"
    proof (cases "s = a")
      case True
      with n have "eventClass \<notin> set (classList ?st1 n)" using e1(3) by simp
      then show ?thesis using strips_stays_off[OF i2] by blast
    next
      case False
      with s have "s \<in> set sels" by simp
      moreover from n q[OF m] have "n \<in> set (querySelectorAll ?st1 el s)" by simp
      ultimately show ?thesis using i3 m by blast
    qed
  qed
  then show ?case
    using i1 e1(1) strips_trans[OF e1(2) i2] by simp
qed

lemma unbind_entry_effect:
  "elements (unbind_entry el entry st) = elements st
   \<and> strips eventClass (classList st) (classList (unbind_entry el entry st))
   \<and> (\<forall>s\<in>entry_selectors entry. \<forall>n\<in>set (querySelectorAll st el s).
         eventClass \<notin> set (classList (unbind_entry el entry st) n))"
proof (cases "s_selectors entry")
  case None
  then show ?thesis
    by (simp add: unbind_entry_def removeEventListener_def entry_selectors_def)
next
  case (Some sels)
  let ?st1 = "removeEventListener el (s_type entry) (s_listener entry) st"
  have 1: "elements ?st1 = elements st" "classList ?st1 = classList st"
    by (simp_all add: removeEventListener_def)
  have q: "querySelectorAll ?st1 el s = querySelectorAll st el s" for s
    by (simp add: querySelectorAll_def 1)
  from fold_strip_selector_effect[of el sels ?st1] Some show ?thesis
    by (simp add: unbind_entry_def Let_def entry_selectors_def 1 q) blast
qed

lemma fold_unbind_entry_effect:
  "elements (fold (unbind_entry el) ss st) = elements st
   \<and> strips eventClass (classList st) (classList (fold (unbind_entry el) ss st))
   \<and> (\<forall>entry\<in>set ss. \<forall>s\<in>entry_selectors entry. \<forall>n\<in>set (querySelectorAll st el s).
         eventClass \<notin> set (classList (fold (unbind_entry el) ss st) n))"
proof (induction ss arbitrary: st)
  case Nil
  show ?case by simp
next
  case (Cons a ss)
  let ?st1 = "unbind_entry el a st"
  let ?st2 = "fold (unbind_entry el) ss ?st1"
  from unbind_entry_effect[of el a st] have
    e1: "elements ?st1 = elements st" and
    e2: "strips eventClass (classList st) (classList ?st1)" and
    e3: "\<And>s n. s \<in> entry_selectors a \<Longrightarrow> n \<in> set (querySelectorAll st el s) \<Longrightarrow>
           eventClass \<notin> set (classList ?st1 n)"
    by blast+
  from Cons.IH[of ?st1] have
    i1: "elements ?st2 = elements ?st1" and
    i2: "strips eventClass (classList ?st1) (classList ?st2)" and
    i3: "\<And>entry s n. entry \<in> set ss \<Longrightarrow> s \<in> entry_selectors entry \<Longrightarrow>
           n \<in> set (querySelectorAll ?st1 el s) \<Longrightarrow> eventClass \<notin> set (classList ?st2 n)"
    by blast+
  have m: "s \<in> entry_selectors entry \<Longrightarrow> \<not> mentions eventClass s" for s entry
    by (auto simp: entry_selectors_def split: option.splits)
  have q: "\<not> mentions eventClass s \<Longrightarrow> querySelectorAll ?st1 el s = querySelectorAll st el s" for s
    by (rule querySelectorAll_same_but[OF e1 strips_same_but[OF e2]])
  have "entry \<in> set (a # ss) \<Longrightarrow> s \<in> entry_selectors entry \<Longrightarrow>
          n \<in> set (querySelectorAll st el s) \<Longrightarrow> eventClass \<notin> set (classList ?st2 n)"
    for entry s n
  proof -
    assume en: "entry \<in> set (a # ss)" and s: "s \<in> entry_selectors entry"
      and n: "n \<in> set (querySelectorAll st el s)"
    show "eventClass \<notin> set (classList ?st2 n)"
    proof (cases "entry = a")
      case True
      with s n have "eventClass \<notin> set (classList ?st1 n)" using e3 by simp
      then show ?thesis using strips_stays_off[OF i2] by blast
    next
      case False
      with en have "entry \<in> set ss" by simp
      moreover from n q[OF m[OF s]] have "n \<in> set (querySelectorAll ?st1 el s)" by simp
      ultimately show ?thesis using i3 s by blast
    qed
  qed
  then show ?case
    using i1 e1 strips_trans[OF e2 i2] by simp
qed


lemma unbindEvents_classes:
  "elements (unbindEvents st r) = elements st"
  "strips eventClass (classList st) (classList (unbindEvents st r))"
proof -
  show "elements (unbindEvents st r) = elements st"
    using fold_unbind_entry_effect[where st=st]
    by (auto simp: unbindEvents_def split: option.splits)
  show "strips eventClass (classList st) (classList (unbindEvents st r))"
    using fold_unbind_entry_effect[where st=st]
    by (auto simp: unbindEvents_def split: option.splits)
qed





















section \<open>Renderers: results\<close>

lemma bindEvents_throws_TypeError:
  "bindEvents st el evs vd = Inl (e, st') \<Longrightarrow> e = TypeError"
  by (auto simp: bindEvents_def Let_def split: option.splits if_splits prod.splits)

text \<open>
  C9. A render entry point called with a root identifier for which the document has no
  element throws the error \<^verbatim>\<open>No ... element with id ...\<close> at once: nothing has been drawn
  or bound, the state is as before the call. When the element exists, the call does not
  throw that error.
\<close>

theorem render_missing_root:
  "(getElementById rootId = None \<longrightarrow>
      PanelRender_render getElementById build this_options st rootId data schema opts
        = Inl (Error (''No panel element with id '' @ rootId), st)
      \<and> ListView_init getElementById build this_options st rootId data schema
        = Inl (Error (''No listView element with id '' @ rootId), st))
   \<and> (getElementById rootId = Some el \<longrightarrow>
      (\<forall>msg st'. PanelRender_render getElementById build this_options st rootId data schema opts
                   \<noteq> Inl (Error msg, st'))
      \<and> (\<forall>msg st'. ListView_init getElementById build this_options st rootId data schema
                   \<noteq> Inl (Error msg, st')))"
proof (intro conjI impI allI)
  assume "getElementById rootId = None"
  then show "PanelRender_render getElementById build this_options st rootId data schema opts
        = Inl (Error (''No panel element with id '' @ rootId), st)"
    by (simp add: PanelRender_render_def)
next
  assume "getElementById rootId = None"
  then show "ListView_init getElementById build this_options st rootId data schema
        = Inl (Error (''No listView element with id '' @ rootId), st)"
    by (simp add: ListView_init_def)
next
  fix msg st'
  assume "getElementById rootId = Some el"
  then show "PanelRender_render getElementById build this_options st rootId data schema opts
                   \<noteq> Inl (Error msg, st')"
    by (auto simp: PanelRender_render_def Let_def split: sum.splits
        dest!: bindEvents_throws_TypeError)
next
  fix msg st'
  assume "getElementById rootId = Some el"
  then show "ListView_init getElementById build this_options st rootId data schema
                   \<noteq> Inl (Error msg, st')"
    by (auto simp: ListView_init_def ListView_draw_def Let_def split: sum.splits
        dest!: bindEvents_throws_TypeError)
qed

theorem render_missing_root_witness:
  "panel_document ''nowhere'' = None
   \<and> PanelRender_render panel_document (\<lambda>el vd st. st) default_options
        (blank_page :: (nat, string) view state) ''nowhere'' [1, 2, 3] None default_options
      = Inl (Error ''No panel element with id nowhere'', blank_page)
   \<and> panel_document ''panel'' = Some [0]
   \<and> PanelRender_render panel_document (\<lambda>el vd st. st) default_options
        (blank_page :: (nat, string) view state) ''panel'' [1, 2, 3] None default_options
      \<noteq> Inl (Error ''No panel element with id panel'', blank_page)"
proof -
  have a: "panel_document ''nowhere'' = None" and b: "panel_document ''panel'' = Some [0]"
    by (simp_all add: panel_document_def)
  note t = render_missing_root[where getElementById=panel_document and rootId="''nowhere''"
      and build="\<lambda>el vd st. st" and this_options=default_options
      and st="blank_page :: (nat, string) view state" and data="[1, 2, 3]" and schema=None
      and opts=default_options]
  note u = render_missing_root[where getElementById=panel_document and rootId="''panel''"
      and build="\<lambda>el vd st. st" and this_options=default_options and el="[0]"
      and st="blank_page :: (nat, string) view state" and data="[1, 2, 3]" and schema=None
      and opts=default_options]
  have 1: "PanelRender_render panel_document (\<lambda>el vd st. st) default_options
        (blank_page :: (nat, string) view state) ''nowhere'' [1, 2, 3] None default_options
      = Inl (Error ''No panel element with id nowhere'', blank_page)"
    using t a by simp
  have 2: "PanelRender_render panel_document (\<lambda>el vd st. st) default_options
        (blank_page :: (nat, string) view state) ''panel'' [1, 2, 3] None default_options
      \<noteq> Inl (Error ''No panel element with id panel'', blank_page)"
    using u b by blast
  from a b 1 2 show ?thesis by simp
qed

text \<open>
  C5. With a schema, both renderers map the first \<^verbatim>\<open>size\<close> raw records through the
  schema's functions and literals. Without a schema, ListView.draw passes the first
  \<^verbatim>\<open>size\<close> raw records through, but PanelRender.render passes all of them through:
  with the default size 5 and six raw records its view data has six records.
\<close>

theorem panel_render_no_schema_not_capped:
  "opt_size (merge_options default_options default_options) = Some 5
   \<and> PanelRender_render panel_document (\<lambda>el vd st. st) default_options
        (blank_page :: (nat, string) view state) ''panel'' [1, 2, 3, 4, 5, 6] None default_options
      = Inr (blank_page, [Raw 1, Raw 2, Raw 3, Raw 4, Raw 5, Raw 6])
   \<and> ListView_init panel_document (\<lambda>el vd st. st) default_options
        (blank_page :: (nat, string) view state) ''panel'' [1, 2, 3, 4, 5, 6] None
      = Inr (blank_page, [Raw 1, Raw 2, Raw 3, Raw 4, Raw 5])
   \<and> PanelRender_render panel_document (\<lambda>el vd st. st) default_options
        (blank_page :: (nat, string) view state) ''panel'' [1, 2, 3, 4, 5, 6]
        (Some [(''n'', Fn (\<lambda>d key. key @ ''!'')), (''k'', Lit ''x'')]) default_options
      = Inr (blank_page, replicate 5 (Mapped [(''n'', ''n!''), (''k'', ''x'')]))"
  by (simp add: PanelRender_render_def PanelRender_viewData_def ListView_init_def
      ListView_draw_def ListView_viewData_def panel_document_def merge_options_def
      default_options_def events_of_def bindEvents_def slice0_def createMapper_def
      numeral_eq_Suc)

section \<open>Option merger: results\<close>











lemma get_prop_Obj:
  "heap_at h a = Some (Obj ps) \<Longrightarrow>
   get_prop h (VRef a) key = Inr (case map_of ps key of None \<Rightarrow> VUndefined | Some x \<Rightarrow> x)"
  by (simp add: get_prop_def own_props_def)

lemma own_props_Obj: "heap_at h a = Some (Obj ps) \<Longrightarrow> own_props h (VRef a) = ps"
  by (simp add: own_props_def)














text \<open>
  The merged tree key by key: a key the source does not have keeps the target's value; a
  key whose source value is a mapping holds the merge of that mapping into the target's
  mapping at the key; any other source value, an array too, is the value itself.
\<close>

lemma merge_props_lookup:
  "distinct (map fst sps) \<Longrightarrow>
   map_of (merge_props t sps res) key
   = (case map_of sps key of
        None \<Rightarrow> map_of res key
      | Some sv \<Rightarrow> Some (case sv of TObj m \<Rightarrow> merge_spec (mapping_at t key) (TObj m) | _ \<Rightarrow> sv))"
proof (induction sps arbitrary: res key)
  case Nil
  show ?case by simp
next
  case (Cons kv sps)
  obtain k sv where kv: "kv = (k, sv)" by (cases kv)
  from Cons.prems kv have d: "distinct (map fst sps)" and k: "k \<notin> fst ` set sps" by simp_all
  from k have none: "map_of sps k = None" by (simp add: map_of_eq_None_iff)
  show ?case
  proof (cases "key = k")
    case True
    show ?thesis unfolding True by (simp add: kv Cons.IH[OF d] none map_of_table_set)
  next
    case False
    then show ?thesis by (simp add: kv Cons.IH[OF d] map_of_table_set split: option.split)
  qed
qed

lemma merge_spec_at_key:
  "distinct (map fst sps) \<Longrightarrow>
   map_of (props_of (merge_spec t (TObj sps))) key
   = (case map_of sps key of
        None \<Rightarrow> map_of (props_of t) key
      | Some sv \<Rightarrow> Some (case sv of TObj m \<Rightarrow> merge_spec (mapping_at t key) (TObj m) | _ \<Rightarrow> sv))"
  by (simp add: props_of_def[of "TObj _"] merge_props_lookup)

text \<open>The examples of the specification, run.\<close>

lemma deepMerge_example_nested:
  "deepMerge 2 merge_heap1 (VRef 1) (VRef 3)
   = Some (Inr (merge_heap1 @
        [Obj [(''a'', VRef 5)], Obj [(''x'', VNum 1), (''y'', VNum 9), (''z'', VNum 3)]],
        VRef 4))"
  by code_simp

lemma deepMerge_example_array:
  "deepMerge 1 merge_heap2 (VRef 1) (VRef 3)
   = Some (Inr (merge_heap2 @ [Obj [(''arr'', VRef 2)]], VRef 4))"
  by code_simp

text \<open>A source that contains itself: the recursion never returns, whatever the bound.\<close>

lemma deepMerge_cyclic:
  "s < length h \<Longrightarrow> h ! s = Obj [(''self'', VRef s)] \<Longrightarrow> t < length h \<Longrightarrow> h ! t = Obj [] \<Longrightarrow>
   deepMerge n h (VRef t) (VRef s) = None"
proof (induction n arbitrary: h t)
  case 0
  show ?case by simp
next
  case (Suc n)
  let ?h1 = "h @ [Obj []]"
  let ?h2 = "?h1 @ [Obj []]"
  from Suc.prems have ats: "heap_at ?h1 s = Some (Obj [(''self'', VRef s)])"
    and att: "heap_at ?h1 t = Some (Obj [])" and att0: "heap_at h t = Some (Obj [])"
    by (auto simp: heap_at_def nth_append)
  from Suc.prems have "deepMerge n ?h2 (VRef (length ?h1)) (VRef s) = None"
    by (intro Suc.IH) (auto simp: nth_append)
  then show ?case
    by (simp add: alloc_def own_props_Obj[OF att0] own_props_Obj[OF ats]
        get_prop_Obj[OF ats] get_prop_Obj[OF att] is_plain_def ats)
qed

lemma deepMerge_cyclic_source:
  "deepMerge n [Obj [], Obj [(''self'', VRef 1)]] (VRef 0) (VRef 1) = None"
  by (rule deepMerge_cyclic) simp_all





end
